theory Spec2Isabelle
  imports Main "HOL-Library.Sublist" "HOL-Library.AList"
begin

unbundle bit_operations_syntax

section \<open>The container bootstrap of app/main.go\<close>

text \<open>
  The program of \<^verbatim>\<open>app/main.go\<close> talks to a registry over HTTP, writes files, runs
  \<^verbatim>\<open>tar\<close>, changes its root directory, unshares namespaces and runs a command. Each
  call that leaves the process is logged as an \<open>event\<close>, in the order in which the
  source makes it, together with what the call returned. What the outside world answers
  is a parameter, the record \<open>world\<close>: every answer may depend on the events so far, so
  two identical calls may be answered differently.

  The model covers every function that \<^verbatim>\<open>main\<close> of \<^verbatim>\<open>app/main.go\<close> calls. Left out
  are \<^verbatim>\<open>isolateFileSystemWithBinary\<close>, which nothing calls, and the second source
  file, an earlier stage of the program that copies one binary and pulls no image.

  Go errors are modelled by their message. A pair \<open>(value, error)\<close> returned by a Go
  function is a sum \<open>error + value\<close>; a function that can also end the process
  (\<^verbatim>\<open>os.Exit\<close>) or panic returns a \<open>ctl\<close>.
\<close>

subsection \<open>Data\<close>

type_synonym error = string

text \<open>The anonymous struct of \<^verbatim>\<open>Config\<close> and of each element of \<^verbatim>\<open>Layers\<close>.\<close>

record Descriptor =
  MediaType :: string
  Size :: int
  Digest :: string

record ManifestResponse =
  SchemaVersion :: int
  ManifestMediaType :: string
  Config :: Descriptor
  Layers :: "Descriptor list"

record TokenResponse =
  Token :: string
  AccessToken :: string
  ExpiresIn :: int
  IssuedAt :: string

text \<open>
  The part of \<^verbatim>\<open>http.Request\<close> and \<^verbatim>\<open>http.Response\<close> that the program sets or reads.
  The method is always GET. \<open>Body\<close> stands for the response's body stream; what reading
  or decoding it gives is answered by the world.
\<close>

record Request =
  URL :: string
  Header :: "(string \<times> string) list"

record Response =
  StatusCode :: int
  Status :: string
  Body :: string

text \<open>
  What \<^verbatim>\<open>cmd.Run()\<close> can report: the process ran and exited with a status, it was
  ended by a signal, or it could not be started.
\<close>

datatype run_result = Exited nat | Signaled string | StartError error

text \<open>The two places of the source that run a process.\<close>

datatype site = ExtractTar | MainCmd

datatype event =
    MkdirTemp string string "error + string"
  | HttpDo Request "error + Response"
  | BodyClose string
  | Create string "error option"
  | Copy string "error option"
  | FileClose string
  | RunStart site "string list"
  | RunDone site "string list" run_result
  | Chroot string "error option"
  | Unshare int "error option"
  | Print string
  | RemoveAll string

type_synonym trace = "event list"

record world =
  Args :: "string list"
  os_MkdirTemp :: "string \<Rightarrow> string \<Rightarrow> error + string"
  url_Parse :: "string \<Rightarrow> error option"
  http_Do :: "trace \<Rightarrow> Request \<Rightarrow> error + Response"
  json_Decode :: "string \<Rightarrow> error + TokenResponse"
  io_ReadAll :: "string \<Rightarrow> error + string"
  json_Unmarshal :: "string \<Rightarrow> error + ManifestResponse"
  os_Create :: "trace \<Rightarrow> string \<Rightarrow> error option"
  io_Copy :: "trace \<Rightarrow> string \<Rightarrow> string \<Rightarrow> error option"
  cmd_Run :: "trace \<Rightarrow> string list \<Rightarrow> run_result"
  syscall_Chroot :: "trace \<Rightarrow> string \<Rightarrow> error option"
  syscall_Unshare :: "trace \<Rightarrow> int \<Rightarrow> error option"

text \<open>
  How a function ends: it returns a value, it ends the process with \<^verbatim>\<open>os.Exit(code)\<close>,
  or it panics.
\<close>

datatype 'a ctl = Return 'a | OsExit int | Panic string

subsection \<open>Constants and formatting\<close>

definition NL :: string where
  "NL = [CHR 0x0A]"

text \<open>\<^verbatim>\<open>fmt.Sprintf(getTokenURL, image)\<close> and its two siblings.\<close>

definition getTokenURL :: "string \<Rightarrow> string" where
  "getTokenURL img =
     ''https://auth.docker.io/token?service=registry.docker.io&scope=repository:'' @ img @ '':pull''"

definition getManifestURL :: "string \<Rightarrow> string \<Rightarrow> string" where
  "getManifestURL img tag =
     ''https://registry.hub.docker.com/v2/library/'' @ img @ ''/manifests/'' @ tag"

definition getLayerURL :: "string \<Rightarrow> string \<Rightarrow> string" where
  "getLayerURL img digest =
     ''https://registry.hub.docker.com/v2/library/'' @ img @ ''/blobs/'' @ digest"

definition contentTypeHeader :: string where
  "contentTypeHeader = ''application/vnd.docker.distribution.manifest.v2+json''"

definition StatusOK :: int where
  "StatusOK = 200"

definition CLONE_NEWNS :: int where
  "CLONE_NEWNS = 0x00020000"

definition CLONE_NEWUTS :: int where
  "CLONE_NEWUTS = 0x04000000"

definition CLONE_NEWPID :: int where
  "CLONE_NEWPID = 0x20000000"

text \<open>Decimal digits of a number, as \<^verbatim>\<open>strconv.Itoa\<close> writes them.\<close>

fun itoa :: "nat \<Rightarrow> string" where
  "itoa n = (if n < 10 then [''0123456789'' ! n]
             else itoa (n div 10) @ [''0123456789'' ! (n mod 10)])"

declare itoa.simps [simp del]

text \<open>
  The error that \<^verbatim>\<open>cmd.Run()\<close> returns: nil exactly when the process ran and exited
  with status 0; an \<^verbatim>\<open>*exec.ExitError\<close> when it exited with another status or was
  signalled; another error when it did not start.
\<close>

fun run_error :: "run_result \<Rightarrow> error option" where
  "run_error (Exited n) = (if n = 0 then None else Some (''exit status '' @ itoa n))"
| "run_error (Signaled s) = Some (''signal: '' @ s)"
| "run_error (StartError e) = Some e"

fun is_ExitError :: "run_result \<Rightarrow> bool" where
  "is_ExitError (Exited n) = (n \<noteq> 0)"
| "is_ExitError (Signaled s) = True"
| "is_ExitError (StartError e) = False"

text \<open>
  \<^verbatim>\<open>ExitError.ExitCode()\<close>: the status, or -1 for a process ended by a signal. The
  source calls it on an \<^verbatim>\<open>*exec.ExitError\<close> only, so never on a start failure.
\<close>

fun ExitCode :: "run_result \<Rightarrow> int" where
  "ExitCode (Exited n) = int n"
| "ExitCode (Signaled s) = - 1"
| "ExitCode (StartError e) = - 1"

subsection \<open>Library calls\<close>

text \<open>\<^verbatim>\<open>httpClient.Do(req)\<close>: one request, answered by the world.\<close>

definition client_Do :: "world \<Rightarrow> Request \<Rightarrow> trace \<Rightarrow> (error + Response) \<times> trace" where
  "client_Do w req t = (let r = http_Do w t req in (r, t @ [HttpDo req r]))"

text \<open>
  \<^verbatim>\<open>http.NewRequest("GET", url, nil)\<close> fails only when the URL does not parse.
  \<^verbatim>\<open>httpClient.Get(url)\<close> is \<^verbatim>\<open>NewRequest\<close> followed by \<^verbatim>\<open>Do\<close>.
\<close>

definition NewRequest :: "world \<Rightarrow> string \<Rightarrow> error + Request" where
  "NewRequest w url =
     (case url_Parse w url of
        Some e \<Rightarrow> Inl e
      | None \<Rightarrow> Inr \<lparr>URL = url, Header = []\<rparr>)"

definition client_Get :: "world \<Rightarrow> string \<Rightarrow> trace \<Rightarrow> (error + Response) \<times> trace" where
  "client_Get w url t =
     (case NewRequest w url of
        Inl e \<Rightarrow> (Inl e, t)
      | Inr req \<Rightarrow> client_Do w req t)"

text \<open>\<^verbatim>\<open>req.Header.Set(key, value)\<close>.\<close>

definition Header_Set :: "string \<Rightarrow> string \<Rightarrow> Request \<Rightarrow> Request" where
  "Header_Set k v req = req\<lparr>Header := AList.update k v (Header req)\<rparr>"

text \<open>
  \<^verbatim>\<open>strings.Index\<close> and \<^verbatim>\<open>strings.Split\<close> for a separator of one byte: the pieces
  between the separators, of which there is always at least one.
\<close>

fun Index :: "string \<Rightarrow> char \<Rightarrow> nat option" where
  "Index [] c = None"
| "Index (x # xs) c = (if x = c then Some 0 else map_option Suc (Index xs c))"

function Split :: "string \<Rightarrow> char \<Rightarrow> string list" where
  "Split s sep =
     (case Index s sep of
        None \<Rightarrow> [s]
      | Some m \<Rightarrow> take m s # Split (drop (m + 1) s) sep)"
  by pat_completeness auto
termination
proof (relation "measure (\<lambda>(s, sep). length s)")
  show "wf (measure (\<lambda>(s :: string, sep :: char). length s))"
    by simp
next
  fix s :: string and sep :: char and m :: nat
  assume found: "Index s sep = Some m"
  have "Index s sep = Some k \<Longrightarrow> k < length s" for k
    by (induction s arbitrary: k) (auto split: if_splits)
  with found have "m < length s"
    by blast
  then show "((drop (m + 1) s, sep), (s, sep)) \<in> measure (\<lambda>(s, sep). length s)"
    by simp
qed

declare Split.simps [simp del]

subsection \<open>The functions of main.go\<close>

text \<open>\<^verbatim>\<open>getToken\<close>, lines 50 to 68.\<close>

definition getToken :: "world \<Rightarrow> string \<Rightarrow> trace \<Rightarrow> (error + string) \<times> trace" where
  "getToken w img t =
     (case client_Get w (getTokenURL img) t of
        (Inl err, t1) \<Rightarrow> (Inl err, t1)
      | (Inr resp, t1) \<Rightarrow>
          if StatusCode resp \<noteq> StatusOK
          then (Inl (''Error getting token: '' @ Status resp), t1)
          else (case json_Decode w (Body resp) of
                  Inl err \<Rightarrow> (Inl err, t1 @ [BodyClose (Body resp)])
                | Inr tokenResponse \<Rightarrow>
                    (Inr (Token tokenResponse), t1 @ [BodyClose (Body resp)])))"

text \<open>\<^verbatim>\<open>getManifest\<close>, lines 71 to 99.\<close>

definition getManifest ::
  "world \<Rightarrow> string \<Rightarrow> string \<Rightarrow> string \<Rightarrow> trace \<Rightarrow> (error + ManifestResponse) \<times> trace" where
  "getManifest w token img tag t =
     (case NewRequest w (getManifestURL img tag) of
        Inl err \<Rightarrow> (Inl err, t)
      | Inr req0 \<Rightarrow>
          let req = Header_Set ''Accept'' contentTypeHeader
                      (Header_Set ''Authorization'' (''Bearer '' @ token) req0)
          in (case client_Do w req t of
                (Inl err, t1) \<Rightarrow> (Inl err, t1)
              | (Inr resp, t1) \<Rightarrow>
                  if StatusCode resp \<noteq> StatusOK
                  then (Inl (''Error getting manifest: '' @ Status resp), t1)
                  else (case io_ReadAll w (Body resp) of
                          Inl err \<Rightarrow> (Inl err, t1 @ [BodyClose (Body resp)])
                        | Inr bytes \<Rightarrow>
                            (case json_Unmarshal w bytes of
                               Inl err \<Rightarrow> (Inl err, t1 @ [BodyClose (Body resp)])
                             | Inr manifestResponse \<Rightarrow>
                                 (Inr manifestResponse, t1 @ [BodyClose (Body resp)])))))"

text \<open>
  \<^verbatim>\<open>pullLayer\<close>, lines 102 to 135. The slice \<^verbatim>\<open>digest[7:]\<close> panics when the digest has
  fewer than 7 bytes; the deferred \<^verbatim>\<open>resp.Body.Close()\<close> and \<^verbatim>\<open>layerFile.Close()\<close> run
  on every way out after their \<^verbatim>\<open>defer\<close>, last registered first. The file is
  named by \<open>layerFileName\<close>, the digest from its eighth byte on with \<^verbatim>\<open>.tar.gz\<close> added:
  a path relative to the working directory.
\<close>

definition layerFileName :: "string \<Rightarrow> string" where
  "layerFileName digest = drop 7 digest @ ''.tar.gz''"

definition pullLayer ::
  "world \<Rightarrow> string \<Rightarrow> string \<Rightarrow> string \<Rightarrow> trace \<Rightarrow> (error + string) ctl \<times> trace" where
  "pullLayer w token img digest t =
     (case NewRequest w (getLayerURL img digest) of
        Inl err \<Rightarrow>
          (Return (Inl err), t @ [Print (''Error creating request: '' @ err @ NL)])
      | Inr req0 \<Rightarrow>
          let req = Header_Set ''Authorization'' (''Bearer '' @ token) req0
          in (case client_Do w req t of
                (Inl err, t1) \<Rightarrow>
                  (Return (Inl err), t1 @ [Print (''Error sending request: '' @ err @ NL)])
              | (Inr resp, t1) \<Rightarrow>
                  if StatusCode resp \<noteq> StatusOK
                  then (Return (Inl (''Error getting layer: '' @ Status resp)),
                        t1 @ [Print (''Error getting layer: '' @ Status resp @ NL)])
                  else if length digest < 7
                  then (Panic ''slice bounds out of range'', t1 @ [BodyClose (Body resp)])
                  else
                    let name = layerFileName digest;
                        c = os_Create w t1 name;
                        t2 = t1 @ [Create name c]
                    in (case c of
                          Some err \<Rightarrow>
                            (Return (Inl err),
                             t2 @ [Print (''Error creating file: '' @ err @ NL),
                                   BodyClose (Body resp)])
                        | None \<Rightarrow>
                            let k = io_Copy w t2 name (Body resp);
                                t3 = t2 @ [Copy name k]
                            in (case k of
                                  Some err \<Rightarrow>
                                    (Return (Inl err),
                                     t3 @ [Print (''Error copying file: '' @ err @ NL),
                                           FileClose name, BodyClose (Body resp)])
                                | None \<Rightarrow>
                                    (Return (Inr name),
                                     t3 @ [FileClose name, BodyClose (Body resp)])))))"

text \<open>
  \<^verbatim>\<open>extractTar\<close>, lines 138 to 148. \<^verbatim>\<open>cmd.Run()\<close> starts the process and waits for
  it; a failure ends the whole program here, so the function only ever returns nil.
\<close>

definition tarArgs :: "string \<Rightarrow> string \<Rightarrow> string list" where
  "tarArgs src dest = [''tar'', ''-xzf'', src, ''-C'', dest]"

definition extractTar :: "world \<Rightarrow> string \<Rightarrow> string \<Rightarrow> trace \<Rightarrow> error option ctl \<times> trace" where
  "extractTar w src dest t =
     (let t1 = t @ [RunStart ExtractTar (tarArgs src dest)];
          r = cmd_Run w t1 (tarArgs src dest);
          t2 = t1 @ [RunDone ExtractTar (tarArgs src dest) r]
      in (case run_error r of
            Some err \<Rightarrow>
              (OsExit 1, t2 @ [Print (''Error while applying layer:  '' @ err @ NL)])
          | None \<Rightarrow> (Return None, t2)))"

text \<open>
  \<^verbatim>\<open>parseImage\<close>, lines 152 to 158. \<open>Split\<close> never returns the empty list, so both
  indices are in range (lemma \<open>parseImage_indices\<close> below).
\<close>

definition parseImage :: "string \<Rightarrow> string \<times> string" where
  "parseImage img =
     (let imageParts = Split img (CHR '':'')
      in if length imageParts = 1 then (imageParts ! 0, ''latest'')
         else (imageParts ! 0, imageParts ! 1))"

text \<open>\<^verbatim>\<open>isolateProcess\<close>, lines 247 to 253.\<close>

definition isolateProcess :: "world \<Rightarrow> trace \<Rightarrow> error option \<times> trace" where
  "isolateProcess w t =
     (let flags = CLONE_NEWUTS OR CLONE_NEWPID OR CLONE_NEWNS;
          r = syscall_Unshare w t flags;
          t1 = t @ [Unshare flags r]
      in if r \<noteq> None then (Some ''Error unshareing'', t1) else (None, t1))"

text \<open>\<^verbatim>\<open>isolateFileSystem\<close>, lines 256 to 264.\<close>

definition isolateFileSystem :: "world \<Rightarrow> string \<Rightarrow> trace \<Rightarrow> error option \<times> trace" where
  "isolateFileSystem w tempDir t =
     (let r = syscall_Chroot w t tempDir;
          t1 = t @ [Chroot tempDir r]
      in (case r of
            Some err \<Rightarrow> (Some err, t1 @ [Print (''Error chrooting: '' @ err @ NL)])
          | None \<Rightarrow> (None, t1)))"

subsection \<open>main\<close>

text \<open>The loop of lines 191 to 199: pull every layer, collecting the file names.\<close>

fun pullLayers ::
  "world \<Rightarrow> string \<Rightarrow> string \<Rightarrow> Descriptor list \<Rightarrow> string list \<Rightarrow> trace
     \<Rightarrow> string list ctl \<times> trace" where
  "pullLayers w token img [] layerNames t = (Return layerNames, t)"
| "pullLayers w token img (l # ls) layerNames t =
     (case pullLayer w token img (Digest l) t of
        (Return (Inr layerName), t1) \<Rightarrow>
          pullLayers w token img ls (layerNames @ [layerName]) t1
      | (Return (Inl err), t1) \<Rightarrow>
          (OsExit 1, t1 @ [Print (''Error pulling layer: '' @ err @ NL)])
      | (OsExit c, t1) \<Rightarrow> (OsExit c, t1)
      | (Panic p, t1) \<Rightarrow> (Panic p, t1))"

text \<open>The loop of lines 202 to 208: extract every pulled file, in order.\<close>

fun extractLayers :: "world \<Rightarrow> string list \<Rightarrow> string \<Rightarrow> trace \<Rightarrow> unit ctl \<times> trace" where
  "extractLayers w [] tempDir t = (Return (), t)"
| "extractLayers w (layerName # rest) tempDir t =
     (case extractTar w layerName tempDir t of
        (Return None, t1) \<Rightarrow> extractLayers w rest tempDir t1
      | (Return (Some err), t1) \<Rightarrow>
          (OsExit 1, t1 @ [Print (''Error extracting layer: '' @ err @ NL)])
      | (OsExit c, t1) \<Rightarrow> (OsExit c, t1)
      | (Panic p, t1) \<Rightarrow> (Panic p, t1))"

text \<open>Lines 190 to 208 together: the layer materializer.\<close>

definition pullAndExtractAll ::
  "world \<Rightarrow> string \<Rightarrow> string \<Rightarrow> Descriptor list \<Rightarrow> string \<Rightarrow> trace \<Rightarrow> unit ctl \<times> trace" where
  "pullAndExtractAll w token img layers tempDir t =
     (case pullLayers w token img layers [] t of
        (Return layerNames, t1) \<Rightarrow> extractLayers w layerNames tempDir t1
      | (OsExit c, t1) \<Rightarrow> (OsExit c, t1)
      | (Panic p, t1) \<Rightarrow> (Panic p, t1))"

text \<open>Lines 224 to 243: run the command and pass its exit code on.\<close>

definition runCommand :: "world \<Rightarrow> string \<Rightarrow> string list \<Rightarrow> trace \<Rightarrow> unit ctl \<times> trace" where
  "runCommand w command args t =
     (let t1 = t @ [RunStart MainCmd (command # args)];
          r = cmd_Run w t1 (command # args);
          t2 = t1 @ [RunDone MainCmd (command # args) r]
      in (case run_error r of
            None \<Rightarrow> (Return (), t2)
          | Some err \<Rightarrow>
              if is_ExitError r then (OsExit (ExitCode r), t2)
              else (OsExit 1, t2 @ [Print (''Err: '' @ err)])))"

text \<open>Lines 210 to 243: isolate the file system, isolate the process, run the command.\<close>

definition isolateAndRun ::
  "world \<Rightarrow> string \<Rightarrow> string \<Rightarrow> string list \<Rightarrow> trace \<Rightarrow> unit ctl \<times> trace" where
  "isolateAndRun w tempDir command args t =
     (case isolateFileSystem w tempDir t of
        (Some err, t1) \<Rightarrow>
          (OsExit 1, t1 @ [Print (''Error isolating file system: '' @ err @ NL)])
      | (None, t1) \<Rightarrow>
          (case isolateProcess w t1 of
             (Some err, t2) \<Rightarrow>
               (OsExit 1, t2 @ [Print (''Error isolating process: '' @ err @ NL)])
           | (None, t2) \<Rightarrow> runCommand w command args t2))"

text \<open>Lines 174 to 243: everything after the \<^verbatim>\<open>defer\<close> of line 172.\<close>

definition mainBody ::
  "world \<Rightarrow> string \<Rightarrow> string \<Rightarrow> string list \<Rightarrow> string \<Rightarrow> trace \<Rightarrow> unit ctl \<times> trace" where
  "mainBody w imageName command args tempDir t =
     (case parseImage imageName of
        (img, tag) \<Rightarrow>
          (case getToken w (''library/'' @ img) t of
             (Inl err, t1) \<Rightarrow>
               (OsExit 1, t1 @ [Print (''Error getting token: '' @ err @ NL)])
           | (Inr token, t1) \<Rightarrow>
               (case getManifest w token img tag t1 of
                  (Inl err, t2) \<Rightarrow>
                    (OsExit 1, t2 @ [Print (''Error getting manifest: '' @ err @ NL)])
                | (Inr manifest, t2) \<Rightarrow>
                    (case pullAndExtractAll w token img (Layers manifest) tempDir t2 of
                       (Return u, t3) \<Rightarrow> isolateAndRun w tempDir command args t3
                     | (OsExit c, t3) \<Rightarrow> (OsExit c, t3)
                     | (Panic p, t3) \<Rightarrow> (Panic p, t3)))))"

text \<open>
  A deferred call runs when the function returns or panics; \<^verbatim>\<open>os.Exit\<close> ends the
  program at once, and deferred calls are not run.
\<close>

fun deferred :: "event \<Rightarrow> unit ctl \<times> trace \<Rightarrow> unit ctl \<times> trace" where
  "deferred e (OsExit c, t) = (OsExit c, t)"
| "deferred e (Return u, t) = (Return u, t @ [e])"
| "deferred e (Panic p, t) = (Panic p, t @ [e])"

text \<open>
  \<^verbatim>\<open>main\<close>, lines 161 to 244. \<^verbatim>\<open>os.Args[3]\<close> panics when fewer than four arguments
  are given.
\<close>

definition main :: "world \<Rightarrow> unit ctl \<times> trace" where
  "main w =
     (if length (Args w) < 4 then (Panic ''index out of range'', [])
      else
        let command = Args w ! 3;
            args = drop 4 (Args w);
            imageName = Args w ! 2;
            r = os_MkdirTemp w '''' ''my-docker'';
            t = [MkdirTemp '''' ''my-docker'' r]
        in (case r of
              Inl err \<Rightarrow>
                (OsExit 1, t @ [Print (''Error creating temporary directory: '' @ err @ NL)])
            | Inr tempDir \<Rightarrow>
                deferred (RemoveAll tempDir) (mainBody w imageName command args tempDir t)))"

text \<open>
  The status with which the process ends: 0 when \<^verbatim>\<open>main\<close> returns, the argument of
  \<^verbatim>\<open>os.Exit\<close>, and 2 after a panic.
\<close>

fun exitStatus :: "unit ctl \<Rightarrow> int" where
  "exitStatus (Return u) = 0"
| "exitStatus (OsExit c) = c"
| "exitStatus (Panic p) = 2"

section \<open>Reading a trace\<close>

text \<open>The two hosts the program talks to.\<close>

definition is_token_url :: "string \<Rightarrow> bool" where
  "is_token_url u = prefix ''https://auth.docker.io/'' u"

definition is_registry_url :: "string \<Rightarrow> bool" where
  "is_registry_url u = prefix ''https://registry.hub.docker.com/'' u"

text \<open>A request sent to the token endpoint, whatever came back.\<close>

fun is_token_request :: "event \<Rightarrow> bool" where
  "is_token_request (HttpDo req r) = is_token_url (URL req)"
| "is_token_request e = False"

text \<open>A request for a manifest or a blob: both go to the registry host.\<close>

fun is_registry_request :: "event \<Rightarrow> bool" where
  "is_registry_request (HttpDo req r) = is_registry_url (URL req)"
| "is_registry_request e = False"

text \<open>The start and the end of a run of \<^verbatim>\<open>tar\<close> by \<open>extractTar\<close>.\<close>

fun is_extraction :: "event \<Rightarrow> bool" where
  "is_extraction (RunStart ExtractTar argv) = True"
| "is_extraction (RunDone ExtractTar argv r) = True"
| "is_extraction e = False"

text \<open>
  The two isolation steps and the start of the target command: the events whose order
  the isolation bootstrap is about.
\<close>

fun is_bootstrap_step :: "event \<Rightarrow> bool" where
  "is_bootstrap_step (Chroot d r) = True"
| "is_bootstrap_step (Unshare f r) = True"
| "is_bootstrap_step (RunStart MainCmd argv) = True"
| "is_bootstrap_step e = False"

fun is_RemoveAll :: "event \<Rightarrow> bool" where
  "is_RemoveAll (RemoveAll d) = True"
| "is_RemoveAll e = False"

text \<open>
  The events of one extraction after the other: for each file name and result, the
  start of \<^verbatim>\<open>tar\<close> on that file, then its end.
\<close>

definition extraction_events :: "string \<Rightarrow> (string \<times> run_result) list \<Rightarrow> event list" where
  "extraction_events dest nrs =
     concat (map (\<lambda>(name, r). [RunStart ExtractTar (tarArgs name dest),
                                 RunDone ExtractTar (tarArgs name dest) r]) nrs)"

text \<open>
  What a phase of \<open>main\<close> may log: the token exchange; the manifest and blob
  requests with the files they write; the isolation and the command.
\<close>

fun token_event :: "event \<Rightarrow> bool" where
  "token_event (HttpDo req r) = is_token_url (URL req)"
| "token_event (BodyClose b) = True"
| "token_event e = False"

fun registry_event :: "event \<Rightarrow> bool" where
  "registry_event (HttpDo req r) = is_registry_url (URL req)"
| "registry_event (BodyClose b) = True"
| "registry_event (Create n r) = True"
| "registry_event (Copy n r) = True"
| "registry_event (FileClose n) = True"
| "registry_event (Print s) = True"
| "registry_event e = False"

fun run_event :: "event \<Rightarrow> bool" where
  "run_event (Chroot d r) = True"
| "run_event (Unshare f r) = True"
| "run_event (RunStart MainCmd argv) = True"
| "run_event (RunDone MainCmd argv r) = True"
| "run_event (Print s) = True"
| "run_event e = False"

text \<open>An extraction that ended in anything but exit status 0.\<close>

fun failed_extraction :: "event \<Rightarrow> bool" where
  "failed_extraction (RunDone ExtractTar argv r) = (r \<noteq> Exited 0)"
| "failed_extraction e = False"

section \<open>Example worlds\<close>

text \<open>
  A registry that serves an image of two layers, a file system that takes every file
  and a kernel that allows every call. The command exits with status 0.
\<close>

definition demoManifest :: ManifestResponse where
  "demoManifest =
     \<lparr>SchemaVersion = 2,
      ManifestMediaType = ''application/vnd.docker.distribution.manifest.v2+json'',
      Config = \<lparr>MediaType = ''application/vnd.docker.container.image.v1+json'',
                Size = 600, Digest = ''sha256:cccc''\<rparr>,
      Layers = [\<lparr>MediaType = ''application/vnd.docker.image.rootfs.diff.tar.gzip'',
                 Size = 1000, Digest = ''sha256:aaaa''\<rparr>,
                \<lparr>MediaType = ''application/vnd.docker.image.rootfs.diff.tar.gzip'',
                 Size = 2000, Digest = ''sha256:bbbb''\<rparr>]\<rparr>"

definition ok200 :: "string \<Rightarrow> error + Response" where
  "ok200 body = Inr \<lparr>StatusCode = 200, Status = ''200 OK'', Body = body\<rparr>"

definition demoWorld :: world where
  "demoWorld =
     \<lparr>Args = [''mydocker'', ''run'', ''alpine:3.19'', ''/bin/sh'', ''-c'', ''exit''],
      os_MkdirTemp = (\<lambda>dir pattern. Inr ''/tmp/my-docker1''),
      url_Parse = (\<lambda>url. None),
      http_Do = (\<lambda>t req.
        if is_token_url (URL req) then ok200 ''token-json''
        else if map_of (Header req) ''Accept'' = Some contentTypeHeader
        then ok200 ''manifest-json''
        else ok200 ''blob''),
      json_Decode = (\<lambda>body.
        if body = ''token-json''
        then Inr \<lparr>Token = ''t0k'', AccessToken = ''t0k'', ExpiresIn = 300, IssuedAt = ''now''\<rparr>
        else Inl ''invalid character''),
      io_ReadAll = (\<lambda>body. Inr body),
      json_Unmarshal = (\<lambda>bytes.
        if bytes = ''manifest-json'' then Inr demoManifest else Inl ''invalid character''),
      os_Create = (\<lambda>t name. None),
      io_Copy = (\<lambda>t name body. None),
      cmd_Run = (\<lambda>t argv. Exited 0),
      syscall_Chroot = (\<lambda>t dir. None),
      syscall_Unshare = (\<lambda>t flags. None)\<rparr>"

text \<open>The same world with a command that exits with status 7.\<close>

definition exit7World :: world where
  "exit7World =
     demoWorld\<lparr>cmd_Run := (\<lambda>t argv. if hd argv = ''tar'' then Exited 0 else Exited 7)\<rparr>"

text \<open>The same world with a command that is not found.\<close>

definition notFoundWorld :: world where
  "notFoundWorld =
     demoWorld\<lparr>cmd_Run := (\<lambda>t argv. if hd argv = ''tar'' then Exited 0
                                    else StartError ''executable file not found'')\<rparr>"

text \<open>The same world where \<^verbatim>\<open>tar\<close> fails on the first layer with status 2.\<close>

definition tarFailsWorld :: world where
  "tarFailsWorld =
     demoWorld\<lparr>cmd_Run := (\<lambda>t argv. if argv ! 2 = ''aaaa.tar.gz'' then Exited 2 else Exited 0)\<rparr>"

text \<open>A token endpoint that answers 401 to everything.\<close>

definition unauthorizedWorld :: world where
  "unauthorizedWorld =
     demoWorld\<lparr>http_Do := (\<lambda>t req.
       Inr \<lparr>StatusCode = 401, Status = ''401 Unauthorized'', Body = ''denied''\<rparr>)\<rparr>"

text \<open>A network on which every request times out.\<close>

definition timeoutWorld :: world where
  "timeoutWorld = demoWorld\<lparr>http_Do := (\<lambda>t req. Inl ''context deadline exceeded'')\<rparr>"

text \<open>A token endpoint that answers 204, a success status, with the token in the body.\<close>

definition status204World :: world where
  "status204World =
     demoWorld\<lparr>http_Do := (\<lambda>t req.
       Inr \<lparr>StatusCode = 204, Status = ''204 No Content'', Body = ''token-json''\<rparr>)\<rparr>"

text \<open>
  A registry whose manifest lists one layer with the digest \<open>abc\<close>, and which answers
  404 to the request for that blob.
\<close>

definition shortDigestManifest :: ManifestResponse where
  "shortDigestManifest =
     demoManifest\<lparr>Layers := [\<lparr>MediaType = ''application/vnd.docker.image.rootfs.diff.tar.gzip'',
                                Size = 3, Digest = ''abc''\<rparr>]\<rparr>"

definition shortDigest404World :: world where
  "shortDigest404World =
     demoWorld\<lparr>json_Unmarshal := (\<lambda>bytes. Inr shortDigestManifest),
       http_Do := (\<lambda>t req.
         if is_token_url (URL req) then ok200 ''token-json''
         else if map_of (Header req) ''Accept'' = Some contentTypeHeader
         then ok200 ''manifest-json''
         else Inr \<lparr>StatusCode = 404, Status = ''404 Not Found'', Body = ''gone''\<rparr>)\<rparr>"

text \<open>The same registry, answering 200 to the request for that blob.\<close>

definition shortDigest200World :: world where
  "shortDigest200World = demoWorld\<lparr>json_Unmarshal := (\<lambda>bytes. Inr shortDigestManifest)\<rparr>"

section \<open>Properties\<close>

subsection \<open>Parsing the image reference\<close>


lemma Index_at_sep: "c \<notin> set a \<Longrightarrow> Index (a @ c # b) c = Some (length a)"
  by (induction a) auto


lemma Split_at_sep: "c \<notin> set a \<Longrightarrow> Split (a @ c # b) c = a # Split b c"
  by (simp add: Split.simps [of "a @ c # b" c] Index_at_sep)

lemma Split_not_Nil: "Split s c \<noteq> []"
  by (simp add: Split.simps [of s c] split: option.split)

text \<open>
  The two indexings of \<open>parseImage\<close> are in range: \<open>imageParts ! 0\<close> always, and
  \<open>imageParts ! 1\<close> whenever the length is not 1.
\<close>

lemma parseImage_indices:
  "0 < length (Split img (CHR '':'')) \<and>
   (length (Split img (CHR '':'')) \<noteq> 1 \<longrightarrow> 1 < length (Split img (CHR '':'')))"
  using Split_not_Nil [of img "CHR '':''"] by (cases "Split img (CHR '':'')") auto

text \<open>
  Only the first two pieces are looked at: anything after a second colon is dropped.
\<close>

lemma parseImage_two_colons:
  "CHR '':'' \<notin> set name \<Longrightarrow> CHR '':'' \<notin> set tag \<Longrightarrow>
   parseImage (name @ '':'' @ tag @ '':'' @ rest) = (name, tag)"
  by (simp add: parseImage_def Split_at_sep Split.simps [of rest] split: option.split)



subsection \<open>What each phase logs\<close>

lemma token_url_not_registry: "is_token_url u \<Longrightarrow> \<not> is_registry_url u"
  by (auto simp: is_token_url_def is_registry_url_def prefix_def)

lemma is_token_url_getTokenURL [simp]: "is_token_url (getTokenURL i)"
  by (simp add: is_token_url_def getTokenURL_def)

lemma is_registry_url_getManifestURL [simp]: "is_registry_url (getManifestURL i tag)"
  by (simp add: is_registry_url_def getManifestURL_def)

lemma is_registry_url_getLayerURL [simp]: "is_registry_url (getLayerURL i digest)"
  by (simp add: is_registry_url_def getLayerURL_def)

lemma URL_Header_Set [simp]: "URL (Header_Set k v req) = URL req"
  by (simp add: Header_Set_def)

lemma run_error_None_iff: "run_error r = None \<longleftrightarrow> r = Exited 0"
  by (cases r) auto

lemma getToken_ext:
  "\<exists>evs. snd (getToken w i t) = t @ evs \<and> (\<forall>e\<in>set evs. token_event e)"
  by (auto simp: getToken_def client_Get_def client_Do_def NewRequest_def Let_def
           split: option.split sum.split)

lemma getManifest_ext:
  "\<exists>evs. snd (getManifest w token i tag t) = t @ evs \<and> (\<forall>e\<in>set evs. registry_event e)"
  by (auto simp: getManifest_def client_Do_def NewRequest_def Let_def
           split: option.split sum.split)

lemma pullLayer_ext:
  "\<exists>evs. snd (pullLayer w token i digest t) = t @ evs \<and> (\<forall>e\<in>set evs. registry_event e)"
  by (auto simp: pullLayer_def client_Do_def NewRequest_def Let_def
           split: option.split sum.split)

lemma pullLayer_not_OsExit: "fst (pullLayer w token i digest t) \<noteq> OsExit c"
  by (auto simp: pullLayer_def client_Do_def NewRequest_def Let_def
           split: option.split sum.split)



lemma pullLayers_ext:
  "\<exists>evs. snd (pullLayers w token i ls acc t) = t @ evs \<and> (\<forall>e\<in>set evs. registry_event e)"
proof (induction ls arbitrary: acc t)
  case Nil
  then show ?case by simp
next
  case (Cons l ls)
  obtain c t1 where p: "pullLayer w token i (Digest l) t = (c, t1)"
    by (cases "pullLayer w token i (Digest l) t")
  obtain evs1 where e1: "t1 = t @ evs1" "\<forall>e\<in>set evs1. registry_event e"
    using pullLayer_ext [of w token i "Digest l" t] p by auto
  show ?case
  proof (cases c)
    case (Return r)
    show ?thesis
    proof (cases r)
      case (Inl err)
      with Return p e1 show ?thesis by simp
    next
      case (Inr name)
      obtain evs2 where e2:
        "snd (pullLayers w token i ls (acc @ [name]) t1) = t1 @ evs2"
        "\<forall>e\<in>set evs2. registry_event e"
        using Cons.IH [of "acc @ [name]" t1] by auto
      have "snd (pullLayers w token i (l # ls) acc t) = t @ (evs1 @ evs2)"
        using Return Inr p e1 e2 by simp
      moreover have "\<forall>e\<in>set (evs1 @ evs2). registry_event e"
        using e1 e2 by auto
      ultimately show ?thesis by blast
    qed
  next
    case (OsExit n)
    with p e1 show ?thesis by simp
  next
    case (Panic m)
    with p e1 show ?thesis by simp
  qed
qed


lemma pullLayers_not_Return:
  "fst (pullLayers w token i ls acc t) = OsExit c \<Longrightarrow> c = 1"
proof (induction ls arbitrary: acc t)
  case Nil
  then show ?case by simp
next
  case (Cons l ls)
  obtain r t1 where p: "pullLayer w token i (Digest l) t = (r, t1)"
    by (cases "pullLayer w token i (Digest l) t")
  show ?case
  proof (cases r)
    case (Return v)
    then show ?thesis using Cons p by (cases v) auto
  next
    case (OsExit n)
    then show ?thesis using pullLayer_not_OsExit [of w token i "Digest l" t n] p by simp
  next
    case (Panic m)
    with p Cons.prems show ?thesis by simp
  qed
qed

subsection \<open>The layer materializer\<close>



lemma filter_extraction_events [simp]:
  "filter is_extraction (extraction_events d nrs) = extraction_events d nrs"
  by (induction nrs) (auto simp: extraction_events_def)





lemma extractLayers_shape:
  "\<exists>oks. (\<forall>e\<in>set oks. is_extraction e \<and> \<not> failed_extraction e) \<and>
     (extractLayers w names d t = (Return (), t @ oks) \<or>
      (\<exists>n r msg. run_error r \<noteq> None \<and>
         extractLayers w names d t =
           (OsExit 1, t @ oks @ [RunStart ExtractTar (tarArgs n d),
                                 RunDone ExtractTar (tarArgs n d) r, Print msg])))"
proof (induction names arbitrary: t)
  case Nil
  show ?case by (intro exI [of _ "[]"]) simp
next
  case (Cons n names)
  define t1 where "t1 = t @ [RunStart ExtractTar (tarArgs n d)]"
  define r where "r = cmd_Run w t1 (tarArgs n d)"
  define t2 where "t2 = t1 @ [RunDone ExtractTar (tarArgs n d) r]"
  show ?case
  proof (cases "run_error r")
    case None
    then have r0: "r = Exited 0" by (simp add: run_error_None_iff)
    have step: "extractLayers w (n # names) d t = extractLayers w names d t2"
      using None by (simp add: extractTar_def Let_def t1_def r_def t2_def)
    obtain oks where ih:
      "\<forall>e\<in>set oks. is_extraction e \<and> \<not> failed_extraction e"
      "extractLayers w names d t2 = (Return (), t2 @ oks) \<or>
       (\<exists>n r msg. run_error r \<noteq> None \<and>
          extractLayers w names d t2 =
            (OsExit 1, t2 @ oks @ [RunStart ExtractTar (tarArgs n d),
                                   RunDone ExtractTar (tarArgs n d) r, Print msg]))"
      using Cons.IH [of t2] by blast
    let ?oks = "RunStart ExtractTar (tarArgs n d) # RunDone ExtractTar (tarArgs n d) (Exited 0) # oks"
    have t2: "t2 @ oks = t @ ?oks" "\<And>xs. t2 @ oks @ xs = t @ ?oks @ xs"
      by (simp_all add: t2_def t1_def r0)
    have "\<forall>e\<in>set ?oks. is_extraction e \<and> \<not> failed_extraction e"
      using ih(1) by simp
    moreover have
      "extractLayers w (n # names) d t = (Return (), t @ ?oks) \<or>
       (\<exists>n' r msg. run_error r \<noteq> None \<and>
          extractLayers w (n # names) d t =
            (OsExit 1, t @ ?oks @ [RunStart ExtractTar (tarArgs n' d),
                                   RunDone ExtractTar (tarArgs n' d) r, Print msg]))"
      using ih(2) unfolding step t2 by blast
    ultimately show ?thesis by blast
  next
    case (Some err)
    have "extractLayers w (n # names) d t =
            (OsExit 1, t @ [] @ [RunStart ExtractTar (tarArgs n d),
               RunDone ExtractTar (tarArgs n d) r,
               Print (''Error while applying layer:  '' @ err @ NL)])"
      using Some by (simp add: extractTar_def Let_def t1_def r_def t2_def)
    moreover have "run_error r \<noteq> None" using Some by simp
    ultimately show ?thesis
      by (intro exI [of _ "[]"]) (simp del: extractLayers.simps, blast)
  qed
qed

lemma isolateAndRun_ext:
  "\<exists>evs. snd (isolateAndRun w d c a t) = t @ evs \<and> (\<forall>e\<in>set evs. run_event e)"
  by (auto simp: isolateAndRun_def isolateFileSystem_def isolateProcess_def runCommand_def Let_def
           split: option.split)

lemma pullLayers_outcome:
  "fst (pullLayers w token i ls acc t) = OsExit 1 \<or>
   (\<exists>p. fst (pullLayers w token i ls acc t) = Panic p) \<or>
   (\<exists>names. fst (pullLayers w token i ls acc t) = Return names)"
  using pullLayers_not_Return [of w token i ls acc t]
  by (cases "fst (pullLayers w token i ls acc t)") auto

text \<open>
  The three ways through \<open>mainBody\<close>: it stops while talking to the registry; it stops
  at the first extraction that fails; or it goes on to isolate and run.
\<close>

lemma mainBody_shape:
  "\<exists>tok reg.
     snd (getToken w (''library/'' @ fst (parseImage imageName)) t) = t @ tok \<and>
     (\<forall>e\<in>set tok. token_event e) \<and> (\<forall>e\<in>set reg. registry_event e) \<and>
     ((snd (mainBody w imageName command args tempDir t) = t @ tok @ reg \<and>
       (fst (mainBody w imageName command args tempDir t) = OsExit 1 \<or>
        (\<exists>p. fst (mainBody w imageName command args tempDir t) = Panic p))) \<or>
      (\<exists>tr. fst (getToken w (''library/'' @ fst (parseImage imageName)) t) = Inr tr) \<and>
      (\<exists>oks. (\<forall>e\<in>set oks. is_extraction e \<and> \<not> failed_extraction e) \<and>
         ((\<exists>n r msg. run_error r \<noteq> None \<and>
             mainBody w imageName command args tempDir t =
               (OsExit 1, t @ tok @ reg @ oks @
                  [RunStart ExtractTar (tarArgs n tempDir),
                   RunDone ExtractTar (tarArgs n tempDir) r, Print msg])) \<or>
          mainBody w imageName command args tempDir t =
            isolateAndRun w tempDir command args (t @ tok @ reg @ oks))))"
proof -
  obtain img tag where pi: "parseImage imageName = (img, tag)"
    by (cases "parseImage imageName")
  obtain r1 t1 where g: "getToken w (''library/'' @ img) t = (r1, t1)"
    by (cases "getToken w (''library/'' @ img) t")
  obtain tok where tok: "t1 = t @ tok" "\<forall>e\<in>set tok. token_event e"
    using getToken_ext [of w "''library/'' @ img" t] g by auto
  show ?thesis
  proof (cases r1)
    case (Inl err)
    have "mainBody w imageName command args tempDir t =
            (OsExit 1, t @ tok @ [Print (''Error getting token: '' @ err @ NL)])"
      using pi g Inl tok by (simp add: mainBody_def)
    then show ?thesis
      using pi g tok
      by (intro exI [of _ tok] exI [of _ "[Print (''Error getting token: '' @ err @ NL)]"]) simp
  next
    case (Inr token)
    obtain r2 t2 where m: "getManifest w token img tag t1 = (r2, t2)"
      by (cases "getManifest w token img tag t1")
    obtain reg1 where reg1: "t2 = t1 @ reg1" "\<forall>e\<in>set reg1. registry_event e"
      using getManifest_ext [of w token img tag t1] m by auto
    show ?thesis
    proof (cases r2)
      case (Inl err)
      have "mainBody w imageName command args tempDir t =
              (OsExit 1, t @ tok @ reg1 @ [Print (''Error getting manifest: '' @ err @ NL)])"
        using pi g m \<open>r1 = Inr token\<close> Inl tok reg1 by (simp add: mainBody_def)
      then show ?thesis
        using pi g tok reg1
        by (intro exI [of _ tok] exI [of _ "reg1 @ [Print (''Error getting manifest: '' @ err @ NL)]"]) simp
    next
      case (Inr manifest)
      obtain c t3 where p: "pullLayers w token img (Layers manifest) [] t2 = (c, t3)"
        by (cases "pullLayers w token img (Layers manifest) [] t2")
      obtain reg2 where reg2: "t3 = t2 @ reg2" "\<forall>e\<in>set reg2. registry_event e"
        using pullLayers_ext [of w token img "Layers manifest" "[]" t2] p by auto
      have t3: "t3 = t @ tok @ (reg1 @ reg2)"
        using tok reg1 reg2 by simp
      have regs: "\<forall>e\<in>set (reg1 @ reg2). registry_event e"
        using reg1 reg2 by auto
      have mb: "mainBody w imageName command args tempDir t =
                  (case pullAndExtractAll w token img (Layers manifest) tempDir t2 of
                     (Return u, t3) \<Rightarrow> isolateAndRun w tempDir command args t3
                   | (OsExit c, t3) \<Rightarrow> (OsExit c, t3)
                   | (Panic p, t3) \<Rightarrow> (Panic p, t3))"
        using pi g m \<open>r1 = Inr token\<close> Inr by (simp add: mainBody_def)
      consider (stop) "c = OsExit 1 \<or> (\<exists>q. c = Panic q)" | (names) names where "c = Return names"
        using pullLayers_outcome [of w token img "Layers manifest" "[]" t2] p by auto
      then show ?thesis
      proof cases
        case stop
        then have "snd (mainBody w imageName command args tempDir t) = t3 \<and>
            (fst (mainBody w imageName command args tempDir t) = OsExit 1 \<or>
             (\<exists>q. fst (mainBody w imageName command args tempDir t) = Panic q))"
          using mb p by (auto simp: pullAndExtractAll_def)
        then show ?thesis
          using pi g tok t3 regs stop
          by (intro exI [of _ tok] exI [of _ "reg1 @ reg2"]) auto
      next
        case names
        have pe: "pullAndExtractAll w token img (Layers manifest) tempDir t2 =
                    extractLayers w names tempDir t3"
          using p names by (simp add: pullAndExtractAll_def)
        obtain oks where oks:
          "\<forall>e\<in>set oks. is_extraction e \<and> \<not> failed_extraction e"
          "extractLayers w names tempDir t3 = (Return (), t3 @ oks) \<or>
           (\<exists>n r msg. run_error r \<noteq> None \<and>
              extractLayers w names tempDir t3 =
                (OsExit 1, t3 @ oks @ [RunStart ExtractTar (tarArgs n tempDir),
                                       RunDone ExtractTar (tarArgs n tempDir) r, Print msg]))"
          using extractLayers_shape [of w names tempDir t3] by blast
        from oks(2) have
          "(\<exists>n r msg. run_error r \<noteq> None \<and>
              mainBody w imageName command args tempDir t =
                (OsExit 1, t @ tok @ (reg1 @ reg2) @ oks @
                   [RunStart ExtractTar (tarArgs n tempDir),
                    RunDone ExtractTar (tarArgs n tempDir) r, Print msg])) \<or>
           mainBody w imageName command args tempDir t =
             isolateAndRun w tempDir command args (t @ tok @ (reg1 @ reg2) @ oks)"
          unfolding mb pe t3 by auto
        then show ?thesis
          using pi g tok regs oks(1) \<open>r1 = Inr token\<close>
          by (intro exI [of _ tok] exI [of _ "reg1 @ reg2"]) (simp, blast)
      qed
    qed
  qed
qed

subsection \<open>main\<close>

lemma deferred_fst [simp]: "fst (deferred e x) = fst x"
  by (cases "(e, x)" rule: deferred.cases) simp_all

lemma deferred_snd:
  "snd (deferred e x) =
     (case fst x of OsExit c \<Rightarrow> snd x | Return u \<Rightarrow> snd x @ [e] | Panic p \<Rightarrow> snd x @ [e])"
  by (cases "(e, x)" rule: deferred.cases) simp_all

lemma main_cases:
  obtains
    (few) "length (Args w) < 4" "main w = (Panic ''index out of range'', [])"
  | (nodir) err where "os_MkdirTemp w '''' ''my-docker'' = Inl err"
      "main w = (OsExit 1, [MkdirTemp '''' ''my-docker'' (Inl err),
                            Print (''Error creating temporary directory: '' @ err @ NL)])"
  | (body) d where "4 \<le> length (Args w)" "os_MkdirTemp w '''' ''my-docker'' = Inr d"
      "main w = deferred (RemoveAll d)
                  (mainBody w (Args w ! 2) (Args w ! 3) (drop 4 (Args w)) d
                     [MkdirTemp '''' ''my-docker'' (Inr d)])"
proof (cases "length (Args w) < 4")
  case True
  then show ?thesis using few by (simp add: main_def)
next
  case False
  then show ?thesis
    using nodir body by (cases "os_MkdirTemp w '''' ''my-docker''") (simp_all add: main_def Let_def)
qed

lemma token_event_kinds:
  "token_event e \<Longrightarrow>
     \<not> is_bootstrap_step e \<and> \<not> is_RemoveAll e \<and> \<not> failed_extraction e \<and>
     \<not> is_registry_request e \<and> (\<forall>argv r. e \<noteq> RunDone MainCmd argv r)"
  by (cases e) (auto dest: token_url_not_registry)

lemma registry_event_kinds:
  "registry_event e \<Longrightarrow>
     \<not> is_bootstrap_step e \<and> \<not> is_RemoveAll e \<and> \<not> failed_extraction e \<and>
     \<not> is_token_request e \<and> (\<forall>argv r. e \<noteq> RunDone MainCmd argv r)"
  by (cases e) (auto dest: token_url_not_registry)

lemma is_extraction_kinds:
  "is_extraction e \<Longrightarrow>
     \<not> is_bootstrap_step e \<and> \<not> is_RemoveAll e \<and> \<not> is_token_request e \<and>
     \<not> is_registry_request e \<and> (\<forall>argv r. e \<noteq> RunDone MainCmd argv r)"
  by (cases e rule: is_extraction.cases) auto


text \<open>What \<open>isolateAndRun\<close> does, by the answers of the kernel.\<close>

lemma isolateAndRun_unfold:
  "isolateAndRun w d c a t =
     (case syscall_Chroot w t d of
        Some err \<Rightarrow>
          (OsExit 1, t @ [Chroot d (Some err), Print (''Error chrooting: '' @ err @ NL),
                          Print (''Error isolating file system: '' @ err @ NL)])
      | None \<Rightarrow>
          (case syscall_Unshare w (t @ [Chroot d None])
                  (CLONE_NEWUTS OR CLONE_NEWPID OR CLONE_NEWNS) of
             Some err \<Rightarrow>
               (OsExit 1, t @ [Chroot d None,
                               Unshare (CLONE_NEWUTS OR CLONE_NEWPID OR CLONE_NEWNS) (Some err),
                               Print (''Error isolating process: '' @ ''Error unshareing'' @ NL)])
           | None \<Rightarrow>
               runCommand w c a
                 (t @ [Chroot d None,
                       Unshare (CLONE_NEWUTS OR CLONE_NEWPID OR CLONE_NEWNS) None])))"
  by (simp add: isolateAndRun_def isolateFileSystem_def isolateProcess_def Let_def
           split: option.split)

text \<open>The equations that evaluate \<open>main\<close> in an example world.\<close>

lemmas eval_defs =
  main_def mainBody_def getToken_def getManifest_def pullAndExtractAll_def pullLayer_def
  extractTar_def isolateAndRun_unfold runCommand_def client_Get_def client_Do_def
  NewRequest_def Header_Set_def parseImage_def Split.simps Let_def StatusOK_def
  layerFileName_def is_token_url_def getTokenURL_def getManifestURL_def getLayerURL_def
  contentTypeHeader_def NL_def tarArgs_def ok200_def demoWorld_def demoManifest_def

text \<open>
  The five ways through \<open>main\<close>: too few arguments; no temporary directory; a stop
  while talking to the token endpoint or the registry; a stop at the first extraction
  that fails; or the isolation and the command.
\<close>

lemma main_shape:
  obtains
    (few) "length (Args w) < 4" "main w = (Panic ''index out of range'', [])"
  | (nodir) err where
      "main w = (OsExit 1, [MkdirTemp '''' ''my-docker'' (Inl err),
                            Print (''Error creating temporary directory: '' @ err @ NL)])"
  | (net) d tok reg where
      "os_MkdirTemp w '''' ''my-docker'' = Inr d"
      "snd (getToken w (''library/'' @ fst (parseImage (Args w ! 2)))
              [MkdirTemp '''' ''my-docker'' (Inr d)]) =
         [MkdirTemp '''' ''my-docker'' (Inr d)] @ tok"
      "\<forall>e\<in>set tok. token_event e" "\<forall>e\<in>set reg. registry_event e"
      "main w = (OsExit 1, MkdirTemp '''' ''my-docker'' (Inr d) # tok @ reg) \<or>
       (\<exists>p. main w = (Panic p, MkdirTemp '''' ''my-docker'' (Inr d) # tok @ reg @ [RemoveAll d]))"
  | (tar) d tok reg oks n r msg where
      "os_MkdirTemp w '''' ''my-docker'' = Inr d"
      "snd (getToken w (''library/'' @ fst (parseImage (Args w ! 2)))
              [MkdirTemp '''' ''my-docker'' (Inr d)]) =
         [MkdirTemp '''' ''my-docker'' (Inr d)] @ tok"
      "\<exists>tr. fst (getToken w (''library/'' @ fst (parseImage (Args w ! 2)))
                    [MkdirTemp '''' ''my-docker'' (Inr d)]) = Inr tr"
      "\<forall>e\<in>set tok. token_event e" "\<forall>e\<in>set reg. registry_event e"
      "\<forall>e\<in>set oks. is_extraction e \<and> \<not> failed_extraction e"
      "run_error r \<noteq> None"
      "main w = (OsExit 1, MkdirTemp '''' ''my-docker'' (Inr d) # tok @ reg @ oks @
                   [RunStart ExtractTar (tarArgs n d), RunDone ExtractTar (tarArgs n d) r,
                    Print msg])"
  | (run) d tok reg oks where
      "os_MkdirTemp w '''' ''my-docker'' = Inr d"
      "snd (getToken w (''library/'' @ fst (parseImage (Args w ! 2)))
              [MkdirTemp '''' ''my-docker'' (Inr d)]) =
         [MkdirTemp '''' ''my-docker'' (Inr d)] @ tok"
      "\<exists>tr. fst (getToken w (''library/'' @ fst (parseImage (Args w ! 2)))
                    [MkdirTemp '''' ''my-docker'' (Inr d)]) = Inr tr"
      "\<forall>e\<in>set tok. token_event e" "\<forall>e\<in>set reg. registry_event e"
      "\<forall>e\<in>set oks. is_extraction e \<and> \<not> failed_extraction e"
      "main w = deferred (RemoveAll d)
                  (isolateAndRun w d (Args w ! 3) (drop 4 (Args w))
                     (MkdirTemp '''' ''my-docker'' (Inr d) # tok @ reg @ oks))"
proof (cases w rule: main_cases)
  case few
  then show ?thesis using that(1) by simp
next
  case (nodir err)
  then show ?thesis using that(2) by simp
next
  case (body d)
  let ?t0 = "[MkdirTemp '''' ''my-docker'' (Inr d)]"
  let ?mb = "mainBody w (Args w ! 2) (Args w ! 3) (drop 4 (Args w)) d ?t0"
  let ?gt = "getToken w (''library/'' @ fst (parseImage (Args w ! 2))) ?t0"
  obtain tok reg where s:
    "snd ?gt = ?t0 @ tok"
    "\<forall>e\<in>set tok. token_event e" "\<forall>e\<in>set reg. registry_event e"
    "(snd ?mb = ?t0 @ tok @ reg \<and> (fst ?mb = OsExit 1 \<or> (\<exists>p. fst ?mb = Panic p))) \<or>
     (\<exists>tr. fst ?gt = Inr tr) \<and>
     (\<exists>oks. (\<forall>e\<in>set oks. is_extraction e \<and> \<not> failed_extraction e) \<and>
        ((\<exists>n r msg. run_error r \<noteq> None \<and>
            ?mb = (OsExit 1, ?t0 @ tok @ reg @ oks @
                     [RunStart ExtractTar (tarArgs n d),
                      RunDone ExtractTar (tarArgs n d) r, Print msg])) \<or>
         ?mb = isolateAndRun w d (Args w ! 3) (drop 4 (Args w)) (?t0 @ tok @ reg @ oks)))"
    using mainBody_shape [of w "Args w ! 2" ?t0 "Args w ! 3" "drop 4 (Args w)" d] by blast
  from s(4) consider
      (a) "snd ?mb = ?t0 @ tok @ reg" "fst ?mb = OsExit 1 \<or> (\<exists>p. fst ?mb = Panic p)"
    | (b) oks n r msg where "\<exists>tr. fst ?gt = Inr tr"
        "\<forall>e\<in>set oks. is_extraction e \<and> \<not> failed_extraction e" "run_error r \<noteq> None"
        "?mb = (OsExit 1, ?t0 @ tok @ reg @ oks @
                  [RunStart ExtractTar (tarArgs n d),
                   RunDone ExtractTar (tarArgs n d) r, Print msg])"
    | (c) oks where "\<exists>tr. fst ?gt = Inr tr"
        "\<forall>e\<in>set oks. is_extraction e \<and> \<not> failed_extraction e"
        "?mb = isolateAndRun w d (Args w ! 3) (drop 4 (Args w)) (?t0 @ tok @ reg @ oks)"
    by blast
  then show ?thesis
  proof cases
    case a
    have "main w = (fst ?mb, snd (deferred (RemoveAll d) ?mb))"
      using body(3) by (metis deferred_fst prod.collapse)
    with a have
      "main w = (OsExit 1, MkdirTemp '''' ''my-docker'' (Inr d) # tok @ reg) \<or>
       (\<exists>p. main w = (Panic p, MkdirTemp '''' ''my-docker'' (Inr d) # tok @ reg @ [RemoveAll d]))"
      by (auto simp: deferred_snd)
    then show ?thesis using that(3) [OF body(2) s(1) s(2) s(3)] by blast
  next
    case b
    have "main w = (OsExit 1, MkdirTemp '''' ''my-docker'' (Inr d) # tok @ reg @ oks @
                   [RunStart ExtractTar (tarArgs n d), RunDone ExtractTar (tarArgs n d) r,
                    Print msg])"
      using body(3) b(4) by simp
    then show ?thesis using that(4) [OF body(2) s(1) b(1) s(2) s(3) b(2) b(3)] by blast
  next
    case c
    have "main w = deferred (RemoveAll d)
                  (isolateAndRun w d (Args w ! 3) (drop 4 (Args w))
                     (MkdirTemp '''' ''my-docker'' (Inr d) # tok @ reg @ oks))"
      using body(3) c(3) by simp
    then show ?thesis using that(5) [OF body(2) s(1) c(1) s(2) s(3) c(2)] by blast
  qed
qed

lemma setup_kinds:
  assumes "\<forall>e\<in>set tok. token_event e" "\<forall>e\<in>set reg. registry_event e"
    "\<forall>e\<in>set oks. is_extraction e \<and> \<not> failed_extraction e"
    "e \<in> set (tok @ reg @ oks)"
  shows "\<not> is_bootstrap_step e \<and> \<not> is_RemoveAll e \<and> \<not> failed_extraction e \<and>
         (\<forall>argv r. e \<noteq> RunDone MainCmd argv r)"
proof -
  from assms(4) consider "e \<in> set tok" | "e \<in> set reg" | "e \<in> set oks"
    by auto
  then show ?thesis
  proof cases
    case 1
    with assms(1) show ?thesis using token_event_kinds [of e] by blast
  next
    case 2
    with assms(2) show ?thesis using registry_event_kinds [of e] by blast
  next
    case 3
    with assms(3) show ?thesis using is_extraction_kinds [of e] by blast
  qed
qed

subsection \<open>Isolation and the command\<close>

text \<open>
  Claim C3. In every run that starts the target command, the root change and the
  unshare of the UTS, PID and mount namespaces have each been made exactly once, both
  with success, the root change first, and the command is started after both.
\<close>

theorem isolation_before_command:
  assumes "RunStart MainCmd argv \<in> set (snd (main w))"
  shows "\<exists>d. os_MkdirTemp w '''' ''my-docker'' = Inr d \<and>
           argv = Args w ! 3 # drop 4 (Args w) \<and>
           filter is_bootstrap_step (snd (main w)) =
             [Chroot d None,
              Unshare (CLONE_NEWUTS OR CLONE_NEWPID OR CLONE_NEWNS) None,
              RunStart MainCmd argv]"
proof (cases w rule: main_shape)
  case few
  with assms show ?thesis by simp
next
  case (nodir err)
  with assms show ?thesis by simp
next
  case (net d tok reg)
  from assms net(5) have "RunStart MainCmd argv \<in> set (tok @ reg @ [])"
    by auto
  from setup_kinds [OF net(3) net(4) _ this] show ?thesis by simp
next
  case (tar d tok reg oks n r msg)
  from assms tar(8) have "RunStart MainCmd argv \<in> set (tok @ reg @ oks)"
    by auto
  from setup_kinds [OF tar(4) tar(5) tar(6) this] show ?thesis by simp
next
  case (run d tok reg oks)
  let ?T = "MkdirTemp '''' ''my-docker'' (Inr d) # tok @ reg @ oks"
  have none: "\<not> is_bootstrap_step e" if "e \<in> set ?T" for e
    using that setup_kinds [OF run(4) run(5) run(6), of e] by auto
  then have f: "filter is_bootstrap_step ?T = []"
    by (simp only: filter_empty_conv) blast
  have notin: "RunStart MainCmd argv \<notin> set ?T"
    using none [of "RunStart MainCmd argv"] by auto
  have "argv = Args w ! 3 # drop 4 (Args w) \<and>
        filter is_bootstrap_step (snd (main w)) =
          [Chroot d None,
           Unshare (CLONE_NEWUTS OR CLONE_NEWPID OR CLONE_NEWNS) None,
           RunStart MainCmd argv]"
    using assms notin f unfolding run(7)
    by (auto simp: isolateAndRun_unfold runCommand_def Let_def deferred_snd
             split: option.splits if_splits)
  with run(1) show ?thesis by blast
qed

theorem isolation_before_command_witness:
  "RunStart MainCmd [''/bin/sh'', ''-c'', ''exit''] \<in> set (snd (main demoWorld)) \<and>
   filter is_bootstrap_step (snd (main demoWorld)) =
     [Chroot ''/tmp/my-docker1'' None,
      Unshare (CLONE_NEWUTS OR CLONE_NEWPID OR CLONE_NEWNS) None,
      RunStart MainCmd [''/bin/sh'', ''-c'', ''exit'']]"
proof -
  have started: "RunStart MainCmd [''/bin/sh'', ''-c'', ''exit''] \<in> set (snd (main demoWorld))"
    by (simp add: eval_defs)
  have "os_MkdirTemp demoWorld '''' ''my-docker'' = Inr ''/tmp/my-docker1''"
    by (simp add: demoWorld_def)
  with isolation_before_command [OF started] started show ?thesis
    by auto
qed

text \<open>
  Claim C2. When the target command has run and exited with status \<open>n\<close>, the program
  ends with status \<open>n\<close>; when it could not be started, the program ends with status 1
  and the last thing it prints is the cause.
\<close>

theorem exit_code_passthrough:
  assumes "RunDone MainCmd argv r \<in> set (snd (main w))"
  shows "(\<forall>n. r = Exited n \<longrightarrow> exitStatus (fst (main w)) = int n) \<and>
         (\<forall>e. r = StartError e \<longrightarrow>
            exitStatus (fst (main w)) = 1 \<and> last (snd (main w)) = Print (''Err: '' @ e))"
proof (cases w rule: main_shape)
  case few
  with assms show ?thesis by simp
next
  case (nodir err)
  with assms show ?thesis by simp
next
  case (net d tok reg)
  from assms net(5) have "RunDone MainCmd argv r \<in> set (tok @ reg @ [])"
    by auto
  from setup_kinds [OF net(3) net(4) _ this] show ?thesis by simp
next
  case (tar d tok reg oks n r' msg)
  from assms tar(8) have "RunDone MainCmd argv r \<in> set (tok @ reg @ oks)"
    by auto
  from setup_kinds [OF tar(4) tar(5) tar(6) this] show ?thesis by simp
next
  case (run d tok reg oks)
  let ?T = "MkdirTemp '''' ''my-docker'' (Inr d) # tok @ reg @ oks"
  have notin: "RunDone MainCmd argv r \<notin> set ?T"
    using setup_kinds [OF run(4) run(5) run(6), of "RunDone MainCmd argv r"] by auto
  show ?thesis
    using assms notin unfolding run(7)
    by (auto simp: isolateAndRun_unfold runCommand_def Let_def deferred_snd
             split: option.splits if_splits)
qed

theorem exit_code_passthrough_witness:
  "RunDone MainCmd [''/bin/sh'', ''-c'', ''exit''] (Exited 7) \<in> set (snd (main exit7World)) \<and>
   exitStatus (fst (main exit7World)) = 7 \<and>
   RunDone MainCmd [''/bin/sh'', ''-c'', ''exit''] (StartError ''executable file not found'')
     \<in> set (snd (main notFoundWorld)) \<and>
   exitStatus (fst (main notFoundWorld)) = 1 \<and>
   last (snd (main notFoundWorld)) = Print ''Err: executable file not found''"
proof -
  have ran: "RunDone MainCmd [''/bin/sh'', ''-c'', ''exit''] (Exited 7)
               \<in> set (snd (main exit7World))"
    by (simp add: eval_defs exit7World_def)
  have failed: "RunDone MainCmd [''/bin/sh'', ''-c'', ''exit'']
                  (StartError ''executable file not found'') \<in> set (snd (main notFoundWorld))"
    by (simp add: eval_defs notFoundWorld_def)
  from exit_code_passthrough [OF ran] exit_code_passthrough [OF failed] ran failed
  show ?thesis by simp
qed

subsection \<open>A failed extraction\<close>

text \<open>
  Claim C4. When an extraction ends in anything but exit status 0, the program ends
  with status 1, and after the end of that extraction it does nothing but print the
  error: no later layer is extracted.
\<close>

theorem failed_extraction_stops:
  assumes "RunDone ExtractTar argv r \<in> set (snd (main w))" and "r \<noteq> Exited 0"
  shows "fst (main w) = OsExit 1 \<and> exitStatus (fst (main w)) = 1 \<and>
         (\<exists>pre msg. snd (main w) = pre @ [RunDone ExtractTar argv r, Print msg])"
proof (cases w rule: main_shape)
  case few
  with assms show ?thesis by simp
next
  case (nodir err)
  with assms show ?thesis by simp
next
  case (net d tok reg)
  from assms net(5) have "RunDone ExtractTar argv r \<in> set (tok @ reg @ [])"
    by auto
  from setup_kinds [OF net(3) net(4) _ this] assms(2) show ?thesis by simp
next
  case (tar d tok reg oks n r' msg)
  let ?T = "MkdirTemp '''' ''my-docker'' (Inr d) # tok @ reg @ oks"
  have "RunDone ExtractTar argv r \<notin> set (tok @ reg @ oks)"
    using setup_kinds [OF tar(4) tar(5) tar(6), of "RunDone ExtractTar argv r"] assms(2)
    by auto
  with assms(1) tar(8) have same: "RunDone ExtractTar argv r = RunDone ExtractTar (tarArgs n d) r'"
    by auto
  have "snd (main w) = (?T @ [RunStart ExtractTar (tarArgs n d)]) @
          [RunDone ExtractTar argv r, Print msg]"
    using tar(8) same by simp
  then show ?thesis using tar(8) by (simp del: append_assoc)
next
  case (run d tok reg oks)
  let ?T = "MkdirTemp '''' ''my-docker'' (Inr d) # tok @ reg @ oks"
  obtain evs where evs:
    "snd (isolateAndRun w d (Args w ! 3) (drop 4 (Args w)) ?T) = ?T @ evs"
    "\<forall>e\<in>set evs. run_event e"
    using isolateAndRun_ext [of w d "Args w ! 3" "drop 4 (Args w)" ?T] by blast
  have "set (snd (main w)) \<subseteq> set ?T \<union> set evs \<union> {RemoveAll d}"
    unfolding run(7) by (auto simp: deferred_snd evs(1) split: ctl.splits)
  with assms(1) consider "RunDone ExtractTar argv r \<in> set (tok @ reg @ oks)"
    | "RunDone ExtractTar argv r \<in> set evs"
    by auto
  then show ?thesis
  proof cases
    case 1
    from setup_kinds [OF run(4) run(5) run(6) this] assms(2) show ?thesis by simp
  next
    case 2
    with evs(2) have "run_event (RunDone ExtractTar argv r)" by blast
    then show ?thesis by simp
  qed
qed

theorem failed_extraction_stops_witness:
  "RunDone ExtractTar [''tar'', ''-xzf'', ''aaaa.tar.gz'', ''-C'', ''/tmp/my-docker1''] (Exited 2)
     \<in> set (snd (main tarFailsWorld)) \<and>
   fst (main tarFailsWorld) = OsExit 1 \<and>
   (\<exists>pre msg. snd (main tarFailsWorld) =
      pre @ [RunDone ExtractTar [''tar'', ''-xzf'', ''aaaa.tar.gz'', ''-C'', ''/tmp/my-docker1'']
               (Exited 2), Print msg]) \<and>
   RunStart ExtractTar [''tar'', ''-xzf'', ''bbbb.tar.gz'', ''-C'', ''/tmp/my-docker1'']
     \<notin> set (snd (main tarFailsWorld))"
proof -
  have failed: "RunDone ExtractTar [''tar'', ''-xzf'', ''aaaa.tar.gz'', ''-C'', ''/tmp/my-docker1'']
                  (Exited 2) \<in> set (snd (main tarFailsWorld))"
    by (simp add: eval_defs tarFailsWorld_def)
  have never: "RunStart ExtractTar [''tar'', ''-xzf'', ''bbbb.tar.gz'', ''-C'', ''/tmp/my-docker1'']
                 \<notin> set (snd (main tarFailsWorld))"
    by (simp add: eval_defs tarFailsWorld_def)
  have "Exited 2 \<noteq> Exited 0" by simp
  from failed_extraction_stops [OF failed this] failed never show ?thesis
    by blast
qed

subsection \<open>A refused token request\<close>

lemma getToken_Inr_status:
  assumes "fst (getToken w i t) = Inr tr" and "snd (getToken w i t) = t @ tok"
    and "HttpDo req (Inr resp) \<in> set tok"
  shows "StatusCode resp = 200"
  using assms
  by (auto simp: getToken_def client_Get_def client_Do_def NewRequest_def Let_def StatusOK_def
           split: option.splits sum.splits if_splits)

lemma mainBody_token_failed:
  assumes "fst (getToken w (''library/'' @ fst (parseImage imageName)) t) = Inl err"
  shows "mainBody w imageName command args tempDir t =
           (OsExit 1, snd (getToken w (''library/'' @ fst (parseImage imageName)) t) @
                        [Print (''Error getting token: '' @ err @ NL)])"
  using assms by (auto simp: mainBody_def split: prod.splits sum.splits)

text \<open>
  Claim C6. When the token endpoint has answered with a status outside 200 to 299, the
  program ends with status 1 and no request for a manifest or a blob is ever made.
\<close>

theorem token_refused_no_registry_request:
  assumes "HttpDo req (Inr resp) \<in> set (snd (main w))" and "is_token_url (URL req)"
    and "StatusCode resp < 200 \<or> 300 \<le> StatusCode resp"
  shows "fst (main w) = OsExit 1 \<and> (\<forall>e\<in>set (snd (main w)). \<not> is_registry_request e)"
proof -
  let ?h = "HttpDo req (Inr resp)"
  have h: "is_token_request ?h" "\<not> run_event ?h" "\<not> is_extraction ?h"
    using assms(2) by simp_all
  show ?thesis
  proof (cases w rule: main_cases)
    case few
    with assms show ?thesis by simp
  next
    case (nodir err)
    with assms show ?thesis by simp
  next
    case (body d)
    let ?t0 = "[MkdirTemp '''' ''my-docker'' (Inr d)]"
    let ?gt = "getToken w (''library/'' @ fst (parseImage (Args w ! 2))) ?t0"
    obtain tok where tok: "snd ?gt = ?t0 @ tok" "\<forall>e\<in>set tok. token_event e"
      using getToken_ext [of w "''library/'' @ fst (parseImage (Args w ! 2))" ?t0] by blast
    show ?thesis
    proof (cases "fst ?gt")
      case (Inl err)
      have "main w = (OsExit 1, ?t0 @ tok @ [Print (''Error getting token: '' @ err @ NL)])"
        using body(3) mainBody_token_failed [OF Inl] tok(1) by simp
      moreover have "\<not> is_registry_request e" if "e \<in> set tok" for e
        using that tok(2) token_event_kinds [of e] by blast
      ultimately show ?thesis by auto
    next
      case (Inr tr)
      have intok: "?h \<notin> set tok"
        using getToken_Inr_status [OF Inr tok(1), of req resp] assms(3) by auto
      have False
      proof (cases w rule: main_shape)
        case few
        with assms show ?thesis by simp
      next
        case (nodir err)
        with assms show ?thesis by simp
      next
        case (net d' tok' reg)
        have d: "d' = d" using net(1) body(2) by simp
        have t: "tok' = tok" using net(2) tok(1) unfolding d by simp
        from assms(1) net(5) intok have "?h \<in> set reg"
          unfolding d t by auto
        with net(4) registry_event_kinds [of ?h] h(1) show ?thesis by blast
      next
        case (tar d' tok' reg oks n r msg)
        have d: "d' = d" using tar(1) body(2) by simp
        have t: "tok' = tok" using tar(2) tok(1) unfolding d by simp
        from assms(1) tar(8) intok have "?h \<in> set reg \<or> ?h \<in> set oks"
          unfolding d t by auto
        with tar(5) tar(6) registry_event_kinds [of ?h] h show ?thesis by blast
      next
        case (run d' tok' reg oks)
        have d: "d' = d" using run(1) body(2) by simp
        have t: "tok' = tok" using run(2) tok(1) unfolding d by simp
        let ?T = "MkdirTemp '''' ''my-docker'' (Inr d) # tok @ reg @ oks"
        obtain evs where evs:
          "snd (isolateAndRun w d (Args w ! 3) (drop 4 (Args w)) ?T) = ?T @ evs"
          "\<forall>e\<in>set evs. run_event e"
          using isolateAndRun_ext [of w d "Args w ! 3" "drop 4 (Args w)" ?T] by blast
        have "set (snd (main w)) \<subseteq> set ?T \<union> set evs \<union> {RemoveAll d}"
          unfolding run(7) d t by (auto simp: deferred_snd evs(1) split: ctl.splits)
        with assms(1) intok have "?h \<in> set reg \<or> ?h \<in> set oks \<or> ?h \<in> set evs"
          by auto
        with run(5) run(6) evs(2) registry_event_kinds [of ?h] h show ?thesis by blast
      qed
      then show ?thesis ..
    qed
  qed
qed

theorem token_refused_no_registry_request_witness:
  "HttpDo \<lparr>URL = getTokenURL ''library/alpine'', Header = []\<rparr>
     (Inr \<lparr>StatusCode = 401, Status = ''401 Unauthorized'', Body = ''denied''\<rparr>)
     \<in> set (snd (main unauthorizedWorld)) \<and>
   fst (main unauthorizedWorld) = OsExit 1 \<and>
   filter is_registry_request (snd (main unauthorizedWorld)) = []"
proof -
  let ?resp = "\<lparr>StatusCode = 401, Status = ''401 Unauthorized'', Body = ''denied''\<rparr>"
  have refused: "HttpDo \<lparr>URL = getTokenURL ''library/alpine'', Header = []\<rparr> (Inr ?resp)
                   \<in> set (snd (main unauthorizedWorld))"
    by (simp add: eval_defs unauthorizedWorld_def)
  have url: "is_token_url (URL \<lparr>URL = getTokenURL ''library/alpine'', Header = []\<rparr>)"
    by simp
  have status: "StatusCode ?resp < 200 \<or> 300 \<le> StatusCode ?resp"
    by simp
  from token_refused_no_registry_request [OF refused url status] refused show ?thesis
    by (simp add: filter_empty_conv)
qed

subsection \<open>The token exchange\<close>

text \<open>
  Claim C8, as amended. \<open>getToken\<close> returns an error exactly when the URL does not
  parse, the request gets no response, the status is not 200, or the decoder fails on
  the body; on a response with status 200 whose body decodes it returns the \<open>token\<close>
  field.
\<close>

theorem getToken_error_iff:
  "((\<exists>err. fst (getToken w i t) = Inl err) \<longleftrightarrow>
      (url_Parse w (getTokenURL i) \<noteq> None \<or>
       (\<exists>err. http_Do w t \<lparr>URL = getTokenURL i, Header = []\<rparr> = Inl err) \<or>
       (\<exists>resp. http_Do w t \<lparr>URL = getTokenURL i, Header = []\<rparr> = Inr resp \<and>
          (StatusCode resp \<noteq> 200 \<or> (\<exists>err. json_Decode w (Body resp) = Inl err))))) \<and>
   (\<forall>resp tr.
      url_Parse w (getTokenURL i) = None \<and>
      http_Do w t \<lparr>URL = getTokenURL i, Header = []\<rparr> = Inr resp \<and>
      StatusCode resp = 200 \<and> json_Decode w (Body resp) = Inr tr \<longrightarrow>
      fst (getToken w i t) = Inr (Token tr))"
  by (auto simp: getToken_def client_Get_def client_Do_def NewRequest_def Let_def StatusOK_def
           split: option.splits sum.splits)

theorem getToken_error_iff_witness:
  "fst (getToken demoWorld ''library/alpine'' []) = Inr ''t0k'' \<and>
   (\<exists>err. fst (getToken unauthorizedWorld ''library/alpine'' []) = Inl err)"
proof -
  have ok: "url_Parse demoWorld (getTokenURL ''library/alpine'') = None \<and>
      http_Do demoWorld [] \<lparr>URL = getTokenURL ''library/alpine'', Header = []\<rparr> =
        Inr \<lparr>StatusCode = 200, Status = ''200 OK'', Body = ''token-json''\<rparr> \<and>
      StatusCode \<lparr>StatusCode = 200, Status = ''200 OK'', Body = ''token-json''\<rparr> = 200 \<and>
      json_Decode demoWorld (Body \<lparr>StatusCode = 200, Status = ''200 OK'', Body = ''token-json''\<rparr>) =
        Inr \<lparr>Token = ''t0k'', AccessToken = ''t0k'', ExpiresIn = 300, IssuedAt = ''now''\<rparr>"
    by (simp add: demoWorld_def ok200_def)
  have refused:
    "http_Do unauthorizedWorld [] \<lparr>URL = getTokenURL ''library/alpine'', Header = []\<rparr> =
       Inr \<lparr>StatusCode = 401, Status = ''401 Unauthorized'', Body = ''denied''\<rparr>"
    by (simp add: unauthorizedWorld_def)
  from getToken_error_iff [of demoWorld "''library/alpine''" "[]"] ok
  have "fst (getToken demoWorld ''library/alpine'' []) = Inr ''t0k''"
    by (metis TokenResponse.select_convs(1))
  moreover from getToken_error_iff [of unauthorizedWorld "''library/alpine''" "[]"] refused
  have "\<exists>err. fst (getToken unauthorizedWorld ''library/alpine'' []) = Inl err"
    by simp
  ultimately show ?thesis by blast
qed

text \<open>
  The claim as stated fails twice: a request that times out gets no response at all, and
  \<open>getToken\<close> returns an error; a response with the success status 204 and a
  well-formed body is an error too.
\<close>

theorem getToken_error_counterexample:
  "http_Do timeoutWorld [] \<lparr>URL = getTokenURL ''library/alpine'', Header = []\<rparr> =
     Inl ''context deadline exceeded'' \<and>
   fst (getToken timeoutWorld ''library/alpine'' []) = Inl ''context deadline exceeded'' \<and>
   http_Do status204World [] \<lparr>URL = getTokenURL ''library/alpine'', Header = []\<rparr> =
     Inr \<lparr>StatusCode = 204, Status = ''204 No Content'', Body = ''token-json''\<rparr> \<and>
   json_Decode status204World ''token-json'' =
     Inr \<lparr>Token = ''t0k'', AccessToken = ''t0k'', ExpiresIn = 300, IssuedAt = ''now''\<rparr> \<and>
   fst (getToken status204World ''library/alpine'' []) =
     Inl ''Error getting token: 204 No Content''"
  by (simp add: eval_defs timeoutWorld_def status204World_def)

subsection \<open>The layer files\<close>

lemma pullLayers_no_panic:
  "\<forall>l\<in>set ls. 7 \<le> length (Digest l) \<Longrightarrow> fst (pullLayers w token i ls acc t) \<noteq> Panic p"
proof (induction ls arbitrary: acc t)
  case Nil
  then show ?case by simp
next
  case (Cons l ls)
  obtain c t1 where pl: "pullLayer w token i (Digest l) t = (c, t1)"
    by (cases "pullLayer w token i (Digest l) t")
  have long: "\<not> length (Digest l) < 7" using Cons.prems by simp
  have np: "c \<noteq> Panic q" for q
    using pl long
    by (auto simp: pullLayer_def client_Do_def NewRequest_def Let_def
             split: option.splits sum.splits if_splits)
  show ?case
  proof (cases c)
    case (Return v)
    then show ?thesis using Cons pl by (cases v) auto
  next
    case (OsExit n)
    with pl show ?thesis by simp
  next
    case (Panic q)
    with np [of q] show ?thesis by blast
  qed
qed

lemma extractLayers_no_panic: "fst (extractLayers w names d t) \<noteq> Panic p"
  using extractLayers_shape [of w names d t] by auto

text \<open>
  Claim C10, as amended. \<open>pullLayer\<close> panics exactly when the digest has fewer than 7
  bytes and the request for the blob was made and answered with status 200; when every
  digest of the manifest has at least 7 bytes, the materializer does not panic.
\<close>

theorem pullLayer_panic_iff:
  "((\<exists>p. fst (pullLayer w token i digest t) = Panic p) \<longleftrightarrow>
      (length digest < 7 \<and> url_Parse w (getLayerURL i digest) = None \<and>
       (\<exists>resp. http_Do w t \<lparr>URL = getLayerURL i digest,
                            Header = [(''Authorization'', ''Bearer '' @ token)]\<rparr> = Inr resp \<and>
               StatusCode resp = 200))) \<and>
   ((\<forall>l\<in>set layers. 7 \<le> length (Digest l)) \<longrightarrow>
      (\<forall>p. fst (pullAndExtractAll w token i layers d t) \<noteq> Panic p))"
proof
  show "(\<exists>p. fst (pullLayer w token i digest t) = Panic p) \<longleftrightarrow>
      (length digest < 7 \<and> url_Parse w (getLayerURL i digest) = None \<and>
       (\<exists>resp. http_Do w t \<lparr>URL = getLayerURL i digest,
                            Header = [(''Authorization'', ''Bearer '' @ token)]\<rparr> = Inr resp \<and>
               StatusCode resp = 200))"
    by (auto simp: pullLayer_def client_Do_def NewRequest_def Header_Set_def Let_def StatusOK_def
             split: option.splits sum.splits)
next
  show "(\<forall>l\<in>set layers. 7 \<le> length (Digest l)) \<longrightarrow>
      (\<forall>p. fst (pullAndExtractAll w token i layers d t) \<noteq> Panic p)"
  proof (intro impI allI)
    fix p
    assume long: "\<forall>l\<in>set layers. 7 \<le> length (Digest l)"
    obtain c t1 where pl: "pullLayers w token i layers [] t = (c, t1)"
      by (cases "pullLayers w token i layers [] t")
    have "c \<noteq> Panic q" for q
      using pullLayers_no_panic [OF long, of w token i "[]" t q] pl by simp
    then show "fst (pullAndExtractAll w token i layers d t) \<noteq> Panic p"
      using pl extractLayers_no_panic [of w _ d t1 p]
      by (cases c) (auto simp: pullAndExtractAll_def)
  qed
qed

theorem pullLayer_panic_iff_witness:
  "(\<exists>p. fst (pullLayer shortDigest200World ''t0k'' ''alpine'' ''abc'' []) = Panic p) \<and>
   (\<forall>p. fst (pullAndExtractAll demoWorld ''t0k'' ''alpine'' (Layers demoManifest)
              ''/tmp/my-docker1'' []) \<noteq> Panic p)"
proof -
  have short: "length ''abc'' < 7 \<and>
      url_Parse shortDigest200World (getLayerURL ''alpine'' ''abc'') = None \<and>
      (\<exists>resp. http_Do shortDigest200World []
                 \<lparr>URL = getLayerURL ''alpine'' ''abc'',
                  Header = [(''Authorization'', ''Bearer '' @ ''t0k'')]\<rparr> = Inr resp \<and>
               StatusCode resp = 200)"
    by (simp add: shortDigest200World_def demoWorld_def ok200_def is_token_url_def
          getLayerURL_def contentTypeHeader_def)
  have long: "\<forall>l\<in>set (Layers demoManifest). 7 \<le> length (Digest l)"
    by (simp add: demoManifest_def)
  from pullLayer_panic_iff
         [of shortDigest200World "''t0k''" "''alpine''" "''abc''" "[]" "[]"] short
  have "\<exists>p. fst (pullLayer shortDigest200World ''t0k'' ''alpine'' ''abc'' []) = Panic p"
    by blast
  moreover from pullLayer_panic_iff
         [of demoWorld "''t0k''" "''alpine''" "''abc''" "[]" "Layers demoManifest"] long
  have "\<forall>p. fst (pullAndExtractAll demoWorld ''t0k'' ''alpine'' (Layers demoManifest)
              ''/tmp/my-docker1'' []) \<noteq> Panic p"
    by blast
  ultimately show ?thesis by blast
qed

text \<open>
  The claim as stated fails on a manifest whose only layer has the digest \<open>abc\<close> when
  the registry answers 404 to the request for that blob: \<open>pullLayer\<close> returns an error
  before it slices the digest, and the program ends with status 1 and no panic.
\<close>

theorem short_digest_counterexample:
  "json_Unmarshal shortDigest404World ''manifest-json'' = Inr shortDigestManifest \<and>
   map Digest (Layers shortDigestManifest) = [''abc''] \<and>
   fst (pullLayer shortDigest404World ''t0k'' ''alpine'' ''abc'' []) =
     Return (Inl ''Error getting layer: 404 Not Found'') \<and>
   fst (main shortDigest404World) = OsExit 1"
  by (simp add: eval_defs shortDigest404World_def shortDigestManifest_def)

subsection \<open>Cleaning up\<close>





text \<open>
  Claim C9 fails on the code. With a token endpoint that answers 401 the program makes
  the temporary directory, prints the error and ends with \<^verbatim>\<open>os.Exit(1)\<close>: the
  deferred removal does not run.
\<close>

theorem cleanup_skipped_on_failure:
  "fst (main unauthorizedWorld) = OsExit 1 \<and>
   MkdirTemp '''' ''my-docker'' (Inr ''/tmp/my-docker1'') \<in> set (snd (main unauthorizedWorld)) \<and>
   filter is_RemoveAll (snd (main unauthorizedWorld)) = []"
  by (simp add: eval_defs unauthorizedWorld_def)

end
